theory Spec2Isabelle
  imports Main
begin

section \<open>Python exceptions and the library's data\<close>

text \<open>
  The notebook \<^verbatim>\<open>docs/guides/developer/pythia_policies.ipynb\<close> is Python. Every
  \<^verbatim>\<open>raise\<close> of its code, and every exception a builtin raises on the way
  (an attribute a module does not have, \<^verbatim>\<open>%\<close> by zero, \<^verbatim>\<open>max\<close> of an empty
  list, a list added to a tuple, a missing key, \<^verbatim>\<open>str\<close> and \<^verbatim>\<open>int\<close> beyond the
  interpreter's digit limit, \<^verbatim>\<open>int\<close> of a malformed string), is a value of \<open>error\<close>; a
  function that may raise returns \<open>error + 'a\<close> with \<open>Inl\<close> for the exception.
  \<open>ValueError\<close> carries its message, since the code meets it at several places;
  \<open>AttributeError\<close> and \<open>KeyError\<close> carry the name that was not found.
\<close>

datatype error =
  ValueError string
  | ZeroDivisionError
  | KeyError string
  | AttributeError string
  | TypeError

text \<open>
  The classes of the \<^verbatim>\<open>vz\<close> module are imported by the notebook and not defined in
  it. The records below hold the fields the notebook reads: \<^verbatim>\<open>name\<close>, \<^verbatim>\<open>type\<close>
  and \<^verbatim>\<open>feasible_values\<close> of a parameter config, \<^verbatim>\<open>parameters\<close> of a search
  space, \<^verbatim>\<open>search_space\<close> of a study config, \<^verbatim>\<open>id\<close> of a trial (here
  \<open>trial_id\<close>, as \<open>id\<close> is the identity function of HOL). The notebook names one
  member of the parameter-type enumeration, \<^verbatim>\<open>CATEGORICAL\<close>; the other constructors
  stand for the types it rejects.

  The library defines that enumeration as \<^verbatim>\<open>vz.ParameterType\<close>. \<open>vz_parameter_type\<close>
  is the evaluation of \<^verbatim>\<open>vz.<enumeration>.<member>\<close>: the member under the
  library's name, and an \<^verbatim>\<open>AttributeError\<close> of the module under any other name.
\<close>

datatype ParameterType = DOUBLE | INTEGER | CATEGORICAL | DISCRETE

definition vz_parameter_type :: "string \<Rightarrow> ParameterType \<Rightarrow> error + ParameterType" where
  "vz_parameter_type enumeration member =
     (if enumeration = ''ParameterType'' then Inr member
      else Inl (AttributeError enumeration))"

datatype ParameterValue = ParameterValue string

record ParameterConfig =
  name :: string
  type :: ParameterType
  feasible_values :: "string list"

record SearchSpace =
  parameters :: "ParameterConfig list"

type_synonym ParameterDict = "string \<rightharpoonup> ParameterValue"

record Trial =
  trial_id :: int

datatype TrialStatus = REQUESTED | ACTIVE | STOPPING | COMPLETED

section \<open>make_parameters\<close>

text \<open>
  \<^verbatim>\<open>
  def make_parameters(search_space, index):
    parameter_dict = vz.ParameterDict()
    for parameter_config in search_space.parameters:
      if parameter_config.type != vz.ParamterType.CATEGORICAL:
        raise ValueError("This function only supports CATEGORICAL parameters.")
      feasible_values = parameter_config.feasible_values
      parameter_dict[parameter_config.name] = vz.ParameterValue(
          value=feasible_values[index % len(feasible_values)])
    return parameter_dict
  \<close>
  The loop is a recursion over the configs that carries the dict. The condition of the
  \<^verbatim>\<open>if\<close> evaluates \<^verbatim>\<open>vz.ParamterType.CATEGORICAL\<close>, under the name as the notebook
  spells it, before it compares; an exception of that lookup leaves the function.
  \<^verbatim>\<open>index % 0\<close> raises \<^verbatim>\<open>ZeroDivisionError\<close>. For a positive length Python's \<^verbatim>\<open>%\<close>
  on integers is \<open>mod\<close> on \<open>int\<close>: the result lies in \<open>0..<len\<close> also for a negative
  index, so the list access is in range.
\<close>

abbreviation unsupported_message :: string where
  "unsupported_message \<equiv> ''This function only supports CATEGORICAL parameters.''"

fun make_parameters_loop ::
  "ParameterConfig list \<Rightarrow> int \<Rightarrow> ParameterDict \<Rightarrow> error + ParameterDict" where
  "make_parameters_loop [] index parameter_dict = Inr parameter_dict"
| "make_parameters_loop (parameter_config # rest) index parameter_dict =
     (case vz_parameter_type ''ParamterType'' CATEGORICAL of
        Inl e \<Rightarrow> Inl e
      | Inr categorical \<Rightarrow>
          if type parameter_config \<noteq> categorical then Inl (ValueError unsupported_message)
          else
            let feasible_values = feasible_values parameter_config in
            if length feasible_values = 0 then Inl ZeroDivisionError
            else make_parameters_loop rest index
                   (parameter_dict(name parameter_config \<mapsto>
                      ParameterValue
                        (feasible_values ! nat (index mod int (length feasible_values))))))"

definition make_parameters :: "SearchSpace \<Rightarrow> int \<Rightarrow> error + ParameterDict" where
  "make_parameters search_space index =
     make_parameters_loop (parameters search_space) index Map.empty"

record StudyConfig =
  search_space :: SearchSpace

section \<open>get_next_index and MyPolicy\<close>

text \<open>
  The \<^verbatim>\<open>PolicySupporter\<close> is the client through which a policy reads the datastore; its
  class is not part of the notebook, so its one method the notebook calls is a field of
  the record: \<open>GetTrials s k status\<close> is what the \<open>k\<close>-th call of \<^verbatim>\<open>GetTrials\<close> made
  during one \<^verbatim>\<open>suggest\<close> (counted from 0) returns when asked for the trials of
  \<open>status\<close>. The datastore may change between two calls; a supporter whose data does not
  change answers alike at every \<open>k\<close>.
  \<^verbatim>\<open>
  def get_next_index(policy_supporter):
    completed = policy_supporter.GetTrials(status_matches=vz.TrialStatus.COMPLETED)
    active = policy_supporter.GetTrials(status_matches=vz.TrialStatus.ACTIVE)
    trial_ids = [t.id for t in completed + active]
    if trial_ids:
      return max(trial_ids)
    return 0
  \<close>
  \<^verbatim>\<open>max\<close> of an empty list raises a \<^verbatim>\<open>ValueError\<close>; \<open>get_next_index\<close> calls it on
  a non-empty list only. The function returns the index and the number of calls made
  so far.
\<close>

record PolicySupporter =
  GetTrials :: "nat \<Rightarrow> TrialStatus \<Rightarrow> Trial list"

text \<open>
  The supporter of a datastore that does not change during the call and holds the given
  completed and active trials, and no trial of another status.
\<close>

definition fixed_supporter :: "Trial list \<Rightarrow> Trial list \<Rightarrow> PolicySupporter" where
  "fixed_supporter completed active =
     \<lparr>GetTrials = (\<lambda>k status. if status = COMPLETED then completed
                                else if status = ACTIVE then active else [])\<rparr>"

abbreviation empty_max_message :: string where
  "empty_max_message \<equiv> ''max() arg is an empty sequence''"

definition py_max :: "int list \<Rightarrow> error + int" where
  "py_max xs = (case xs of [] \<Rightarrow> Inl (ValueError empty_max_message)
                | x # rest \<Rightarrow> Inr (fold max rest x))"

definition get_next_index :: "PolicySupporter \<Rightarrow> nat \<Rightarrow> int \<times> nat" where
  "get_next_index policy_supporter k =
     (let completed = GetTrials policy_supporter k COMPLETED;
          active = GetTrials policy_supporter (k + 1) ACTIVE;
          trial_ids = map trial_id (completed @ active)
      in (case trial_ids of [] \<Rightarrow> 0 | x # rest \<Rightarrow> fold max rest x, k + 2))"

text \<open>
  \<^verbatim>\<open>
  class MyPolicy(pythia.Policy):
    def __init__(self, policy_supporter):
      self._policy_supporter = policy_supporter

    def suggest(self, request):
      suggest_decision_list = []
      for _ in range(request.count):
        index = get_next_index(self._policy_supporter)
        parameters = make_parameters(request.study_config.search_space, index)
        suggest_decision_list.append(vz.TrialSuggestion(parameters=parameters))
      return pythia.SuggestDecision(
          suggestions=suggest_decision_list, metadata=vz.MetadataDelta())
  \<close>
  \<^verbatim>\<open>range(count)\<close> has \<open>nat count\<close> elements; the library's request holds a count of
  at least 1. An exception of \<open>make_parameters\<close> leaves the loop and the method. \<^verbatim>\<open>vz.MetadataDelta()\<close> is the
  delta with no entry. \<open>MyPolicy_suggest\<close> returns the outcome and the instance after
  the call; the method assigns to no attribute.
\<close>

datatype TrialSuggestion = TrialSuggestion ParameterDict

type_synonym Metadata = "string \<rightharpoonup> string"

record SuggestRequest =
  count :: int
  study_config :: StudyConfig

record SuggestDecision =
  suggestions :: "TrialSuggestion list"
  metadata :: Metadata

record MyPolicy =
  policy_supporter :: PolicySupporter

definition MyPolicy_init :: "PolicySupporter \<Rightarrow> MyPolicy" where
  "MyPolicy_init supporter = \<lparr>policy_supporter = supporter\<rparr>"

fun suggest_loop ::
  "PolicySupporter \<Rightarrow> SearchSpace \<Rightarrow> nat \<Rightarrow> nat \<Rightarrow> TrialSuggestion list
     \<Rightarrow> error + TrialSuggestion list" where
  "suggest_loop supporter space 0 k suggest_decision_list = Inr suggest_decision_list"
| "suggest_loop supporter space (Suc n) k suggest_decision_list =
     (case get_next_index supporter k of
        (index, k') \<Rightarrow>
          (case make_parameters space index of
             Inl e \<Rightarrow> Inl e
           | Inr params \<Rightarrow>
               suggest_loop supporter space n k'
                 (suggest_decision_list @ [TrialSuggestion params])))"

definition MyPolicy_suggest ::
  "MyPolicy \<Rightarrow> SuggestRequest \<Rightarrow> (error + SuggestDecision) \<times> MyPolicy" where
  "MyPolicy_suggest self request =
     (case suggest_loop (policy_supporter self) (search_space (study_config request))
             (nat (count request)) 0 [] of
        Inl e \<Rightarrow> (Inl e, self)
      | Inr suggest_decision_list \<Rightarrow>
          (Inr \<lparr>suggestions = suggest_decision_list, metadata = Map.empty\<rparr>, self))"

section \<open>MyDesigner\<close>

text \<open>
  \<^verbatim>\<open>
  class MyDesigner(algorithms.Designer):
    def __init__(self, study_config):
      self._study_config = study_config
      self._completed_trials = []
      self._active_trials = []

    def update(self, completed, all_active):
      self._completed_trials.extend(completed.trials)
      self._active_trials = all_active.trials

    def suggest(self, count=None):
      if count is None:
        return []
      trial_ids = [t.id for t in self._completed_trials + self._active_trials]
      current_index = max(trial_ids)
      return [
          make_parameters(self._study_config.search_space, current_index + i)
          for i in range(count)
      ]
  \<close>
  \<open>update\<close> returns the designer after the call. The library's \<^verbatim>\<open>CompletedTrials\<close> and
  \<^verbatim>\<open>ActiveTrials\<close> hold their \<^verbatim>\<open>trials\<close> as a tuple. \<^verbatim>\<open>extend\<close> appends the
  items of any sequence to the list \<^verbatim>\<open>_completed_trials\<close>, which stays a list; the
  assignment makes \<^verbatim>\<open>_active_trials\<close> the tuple itself. The record holds the items of
  \<^verbatim>\<open>_active_trials\<close> in \<open>active_trials\<close> and which of the two kinds of sequence the
  attribute is in \<open>active_kind\<close>.

  \<open>suggest\<close> changes no attribute and returns its outcome only. \<^verbatim>\<open>+\<close> of a list and a
  tuple raises a \<^verbatim>\<open>TypeError\<close>. \<^verbatim>\<open>max\<close> is evaluated before the comprehension,
  which evaluates \<open>make_parameters\<close> at \<open>current_index + 0, current_index + 1, \<dots>\<close> in
  that order and stops at the first exception. What it returns is the list of the dicts
  themselves.
\<close>

datatype CompletedTrials = CompletedTrials "Trial list"

datatype ActiveTrials = ActiveTrials "Trial list"

datatype sequence_kind = PyList | PyTuple

record MyDesigner =
  designer_study_config :: StudyConfig
  completed_trials :: "Trial list"
  active_trials :: "Trial list"
  active_kind :: sequence_kind

definition MyDesigner_init :: "StudyConfig \<Rightarrow> MyDesigner" where
  "MyDesigner_init config =
     \<lparr>designer_study_config = config, completed_trials = [], active_trials = [],
      active_kind = PyList\<rparr>"

fun MyDesigner_update :: "MyDesigner \<Rightarrow> CompletedTrials \<Rightarrow> ActiveTrials \<Rightarrow> MyDesigner" where
  "MyDesigner_update self (CompletedTrials completed) (ActiveTrials all_active) =
     self\<lparr>completed_trials := completed_trials self @ completed, active_trials := all_active,
          active_kind := PyTuple\<rparr>"

text \<open>The designer after a sequence of \<open>update\<close> calls, in call order.\<close>

fun MyDesigner_updates ::
  "MyDesigner \<Rightarrow> (CompletedTrials \<times> ActiveTrials) list \<Rightarrow> MyDesigner" where
  "MyDesigner_updates self [] = self"
| "MyDesigner_updates self ((completed, all_active) # calls) =
     MyDesigner_updates (MyDesigner_update self completed all_active) calls"

fun suggest_comprehension ::
  "SearchSpace \<Rightarrow> int \<Rightarrow> int list \<Rightarrow> error + ParameterDict list" where
  "suggest_comprehension space current_index [] = Inr []"
| "suggest_comprehension space current_index (i # rest) =
     (case make_parameters space (current_index + i) of
        Inl e \<Rightarrow> Inl e
      | Inr params \<Rightarrow>
          (case suggest_comprehension space current_index rest of
             Inl e \<Rightarrow> Inl e
           | Inr others \<Rightarrow> Inr (params # others)))"

definition MyDesigner_suggest :: "MyDesigner \<Rightarrow> int option \<Rightarrow> error + ParameterDict list" where
  "MyDesigner_suggest self cnt =
     (case cnt of
        None \<Rightarrow> Inr []
      | Some n \<Rightarrow>
          if active_kind self = PyTuple then Inl TypeError
          else
            (let trial_ids = map trial_id (completed_trials self @ active_trials self) in
             case py_max trial_ids of
               Inl e \<Rightarrow> Inl e
             | Inr current_index \<Rightarrow>
                 suggest_comprehension (search_space (designer_study_config self))
                   current_index (map int [0..<nat n])))"

section \<open>CounterDesigner\<close>

text \<open>
  The notebook gives this class as a sketch, with the algorithm left out:
  \<^verbatim>\<open>
  class CounterDesigner(Designer):
    def __init__(self, ...):
      ...
      self._counter = 0

    def suggest(self, count=None):
      ...
      self._counter += len(suggestions)
      return suggestions
  \<close>
  The part left out is a parameter of the model: \<open>body\<close> computes the suggestions, or
  raises, from the rest of the designer's state (\<open>rest\<close>, of any type) and the count,
  and returns that state with them. It has no access to \<open>counter\<close>. When it raises, the
  two statements after it are not reached.
\<close>

record 's CounterDesigner =
  rest :: 's
  counter :: int

definition CounterDesigner_init :: "'s \<Rightarrow> 's CounterDesigner" where
  "CounterDesigner_init rest0 = \<lparr>rest = rest0, counter = 0\<rparr>"

definition CounterDesigner_suggest ::
  "('s \<Rightarrow> int option \<Rightarrow> (error + 'a list) \<times> 's) \<Rightarrow> 's CounterDesigner \<Rightarrow> int option
     \<Rightarrow> (error + 'a list) \<times> 's CounterDesigner" where
  "CounterDesigner_suggest body self cnt =
     (case body (rest self) cnt of
        (Inl e, rest') \<Rightarrow> (Inl e, self\<lparr>rest := rest'\<rparr>)
      | (Inr suggestions', rest') \<Rightarrow>
          (Inr suggestions',
           self\<lparr>rest := rest', counter := counter self + int (length suggestions')\<rparr>))"

text \<open>
  A session: the designer after a sequence of \<open>suggest\<close> calls, with the outcome of each
  call in order.
\<close>

fun CounterDesigner_session ::
  "('s \<Rightarrow> int option \<Rightarrow> (error + 'a list) \<times> 's) \<Rightarrow> 's CounterDesigner \<Rightarrow> int option list
     \<Rightarrow> (error + 'a list) list \<times> 's CounterDesigner" where
  "CounterDesigner_session body self [] = ([], self)"
| "CounterDesigner_session body self (cnt # cnts) =
     (case CounterDesigner_suggest body self cnt of
        (outcome, self') \<Rightarrow>
          (case CounterDesigner_session body self' cnts of
             (outcomes, final) \<Rightarrow> (outcome # outcomes, final)))"

text \<open>The number of suggestions an outcome hands to the caller: none when it raised.\<close>

fun suggested :: "error + 'a list \<Rightarrow> nat" where
  "suggested (Inl e) = 0"
| "suggested (Inr suggestions') = length suggestions'"

section \<open>str and int\<close>

text \<open>
  \<^verbatim>\<open>_counter\<close> holds an integer or, after \<^verbatim>\<open>CounterSerialDesigner.recover\<close>, a string:
  \<open>pyval\<close> is the value of that attribute. \<open>py_str\<close> is \<^verbatim>\<open>str\<close>: the decimal digits
  of an integer, most significant first, after a minus sign when it is negative, and a
  string itself. \<open>py_int\<close> is \<^verbatim>\<open>int\<close> on a string: surrounding whitespace is
  dropped, a sign may come first, and the rest is a digit followed by digits, each
  of which may have one underscore before it; anything else raises a
  \<^verbatim>\<open>ValueError\<close> (its message without the quoted literal Python appends). Strings
  are ASCII here.

  The image of the Dockerfile is Python 3.11.4, whose \<^verbatim>\<open>str\<close> and \<^verbatim>\<open>int\<close> refuse
  to convert more than \<open>max_str_digits\<close> decimal digits (4300, the interpreter's
  default) with a \<^verbatim>\<open>ValueError\<close>; the sign and the underscores do not count.
  \<^verbatim>\<open>int\<close> reads the digits and underscores after the sign, refuses a misplaced
  underscore, then applies the limit, and only then refuses what follows the digits.
\<close>

datatype pyval = PyInt int | PyStr string

definition max_str_digits :: nat where
  "max_str_digits = 4300"

abbreviation limit_message :: string where
  "limit_message \<equiv> ''Exceeds the limit (4300 digits) for integer string conversion''"

definition digit_char :: "nat \<Rightarrow> char" where
  "digit_char d = ''0123456789'' ! d"

fun digits :: "nat \<Rightarrow> string" where
  "digits n = (if n < 10 then [digit_char n] else digits (n div 10) @ [digit_char (n mod 10)])"

declare digits.simps [simp del]

definition str_int :: "int \<Rightarrow> error + string" where
  "str_int i =
     (let ds = digits (nat \<bar>i\<bar>) in
      if length ds > max_str_digits then Inl (ValueError limit_message)
      else Inr (if i < 0 then CHR ''-'' # ds else ds))"

fun py_str :: "pyval \<Rightarrow> error + string" where
  "py_str (PyInt i) = str_int i"
| "py_str (PyStr s) = Inr s"

definition is_digit :: "char \<Rightarrow> bool" where
  "is_digit c \<longleftrightarrow> c \<in> set ''0123456789''"

definition digit_val :: "char \<Rightarrow> nat" where
  "digit_val c = of_char c - 48"

definition is_space :: "char \<Rightarrow> bool" where
  "is_space c \<longleftrightarrow> c \<in> {CHR '' '', CHR 0x09, CHR 0x0A, CHR 0x0B, CHR 0x0C, CHR 0x0D}"

definition strip :: "string \<Rightarrow> string" where
  "strip s = rev (dropWhile is_space (rev (dropWhile is_space s)))"

fun int_literal :: "string \<Rightarrow> bool" where
  "int_literal [] = False"
| "int_literal [c] = is_digit c"
| "int_literal (c # d # s) =
     (is_digit c \<and> (if d = CHR ''_'' then int_literal s else int_literal (d # s)))"

abbreviation invalid_literal_message :: string where
  "invalid_literal_message \<equiv> ''invalid literal for int() with base 10''"

definition parse_digits :: "string \<Rightarrow> error + nat" where
  "parse_digits s =
     (let literal = takeWhile (\<lambda>c. is_digit c \<or> c = CHR ''_'') s;
          trailing = dropWhile (\<lambda>c. is_digit c \<or> c = CHR ''_'') s;
          ds = filter (\<lambda>c. c \<noteq> CHR ''_'') literal
      in if \<not> int_literal literal then Inl (ValueError invalid_literal_message)
         else if length ds > max_str_digits then Inl (ValueError limit_message)
         else if trailing \<noteq> [] then Inl (ValueError invalid_literal_message)
         else Inr (foldl (\<lambda>acc c. 10 * acc + digit_val c) 0 ds))"

definition py_int :: "string \<Rightarrow> error + int" where
  "py_int s =
     (case strip s of
        [] \<Rightarrow> Inl (ValueError invalid_literal_message)
      | c # cs \<Rightarrow>
          if c = CHR ''-'' then
            (case parse_digits cs of Inl e \<Rightarrow> Inl e | Inr n \<Rightarrow> Inr (- int n))
          else if c = CHR ''+'' then
            (case parse_digits cs of Inl e \<Rightarrow> Inl e | Inr n \<Rightarrow> Inr (int n))
          else
            (case parse_digits (c # cs) of Inl e \<Rightarrow> Inl e | Inr n \<Rightarrow> Inr (int n)))"

section \<open>CounterSerialDesigner and CounterPartialDesigner\<close>

text \<open>
  \<^verbatim>\<open>
  class CounterSerialDesigner(algorithms.SerializableDesigner):
    def __init__(self, counter: int):
      self._counter = counter

    @classmethod
    def recover(cls, metadata):
      return cls(metadata['counter'])

    def dump(self):
      metadata = vz.Metadata()
      metadata['counter'] = str(self._counter)
      return metadata

  class CounterPartialDesigner(algorithms.PartiallySerializableDesigner):
    def load(self, metadata):
      self._counter = int(metadata['counter'])

    def dump(self):
      metadata = vz.Metadata()
      metadata['counter'] = str(self._counter)
      return metadata
  \<close>
  \<^verbatim>\<open>vz.Metadata\<close> is a store of strings under string keys, read as a map; a missing
  key raises \<^verbatim>\<open>KeyError\<close>. \<open>dump\<close> raises what \<^verbatim>\<open>str\<close> raises. \<^verbatim>\<open>_counter\<close> is \<open>counter_s\<close> and \<open>counter_p\<close> in the two
  records. A partially serializable designer has further state that \<open>load\<close> leaves as it
  is: the record is extensible, and \<open>load\<close> and \<open>dump\<close> work on any extension of it.
\<close>

record CounterSerialDesigner =
  counter_s :: pyval

definition CounterSerialDesigner_init :: "pyval \<Rightarrow> CounterSerialDesigner" where
  "CounterSerialDesigner_init c = \<lparr>counter_s = c\<rparr>"

definition CounterSerialDesigner_recover :: "Metadata \<Rightarrow> error + CounterSerialDesigner" where
  "CounterSerialDesigner_recover md =
     (case md ''counter'' of
        None \<Rightarrow> Inl (KeyError ''counter'')
      | Some v \<Rightarrow> Inr (CounterSerialDesigner_init (PyStr v)))"

definition CounterSerialDesigner_dump :: "CounterSerialDesigner \<Rightarrow> error + Metadata" where
  "CounterSerialDesigner_dump self =
     (case py_str (counter_s self) of
        Inl e \<Rightarrow> Inl e
      | Inr s \<Rightarrow> Inr (Map.empty(''counter'' \<mapsto> s)))"

record CounterPartialDesigner =
  counter_p :: pyval

definition CounterPartialDesigner_load ::
  "'a CounterPartialDesigner_scheme \<Rightarrow> Metadata \<Rightarrow> error + 'a CounterPartialDesigner_scheme" where
  "CounterPartialDesigner_load self md =
     (case md ''counter'' of
        None \<Rightarrow> Inl (KeyError ''counter'')
      | Some v \<Rightarrow>
          (case py_int v of
             Inl e \<Rightarrow> Inl e
           | Inr i \<Rightarrow> Inr (self\<lparr>counter_p := PyInt i\<rparr>)))"

definition CounterPartialDesigner_dump ::
  "'a CounterPartialDesigner_scheme \<Rightarrow> error + Metadata" where
  "CounterPartialDesigner_dump self =
     (case py_str (counter_p self) of
        Inl e \<Rightarrow> Inl e
      | Inr s \<Rightarrow> Inr (Map.empty(''counter'' \<mapsto> s)))"

section \<open>The Dockerfile\<close>

text \<open>
  \<^verbatim>\<open>
  FROM python:3.11.4-slim
  RUN apt-get update && apt-get install -y --no-install-recommends build-essential wget && \
      apt-get purge -y --auto-remove && \
      rm -rf /var/lib/apt/lists/*

  COPY ./ .

  RUN pip3 install --no-cache-dir -U -r requirements.txt && \
      pip3 install --no-cache-dir -U -r requirements-jax.txt && \
      pip3 install -U "google-vizier[jax]"

  RUN ./build_protos.sh
  \<close>
  The file is a list of instructions; a \<^verbatim>\<open>RUN\<close> holds the commands its shell line
  chains with \<^verbatim>\<open>&&\<close>, each as its list of words. \<open>build\<close> reads the instructions in
  order into the steps of the build: the base image, the packages an
  \<^verbatim>\<open>apt-get install\<close> names, the files copied, the requirement files (after \<^verbatim>\<open>-r\<close>)
  and the packages a \<^verbatim>\<open>pip3 install\<close> names, and every other command as it stands.
\<close>

datatype instruction = FROM string | RUN "string list list" | COPY string string

definition Dockerfile :: "instruction list" where
  "Dockerfile =
     [FROM ''python:3.11.4-slim'',
      RUN [[''apt-get'', ''update''],
           [''apt-get'', ''install'', ''-y'', ''--no-install-recommends'',
            ''build-essential'', ''wget''],
           [''apt-get'', ''purge'', ''-y'', ''--auto-remove''],
           [''rm'', ''-rf'', ''/var/lib/apt/lists/*'']],
      COPY ''./'' ''.'',
      RUN [[''pip3'', ''install'', ''--no-cache-dir'', ''-U'', ''-r'', ''requirements.txt''],
           [''pip3'', ''install'', ''--no-cache-dir'', ''-U'', ''-r'', ''requirements-jax.txt''],
           [''pip3'', ''install'', ''-U'', ''google-vizier[jax]'']],
      RUN [[''./build_protos.sh'']]]"

datatype step =
  Base string
  | AptInstall "string list"
  | Copy string string
  | PipRequirements string
  | PipPackage string
  | Exec "string list"

definition is_option :: "string \<Rightarrow> bool" where
  "is_option word \<longleftrightarrow> (case word of [] \<Rightarrow> False | c # cs \<Rightarrow> c = CHR ''-'')"

fun pip_install :: "string list \<Rightarrow> step list" where
  "pip_install [] = []"
| "pip_install [word] = (if is_option word then [] else [PipPackage word])"
| "pip_install (word # next_word # words) =
     (if word = ''-r'' then PipRequirements next_word # pip_install words
      else if is_option word then pip_install (next_word # words)
      else PipPackage word # pip_install (next_word # words))"

fun run_command :: "string list \<Rightarrow> step list" where
  "run_command (program # verb # words) =
     (if program = ''apt-get'' \<and> verb = ''install''
      then [AptInstall (filter (\<lambda>word. \<not> is_option word) words)]
      else if program = ''pip3'' \<and> verb = ''install'' then pip_install words
      else [Exec (program # verb # words)])"
| "run_command command = [Exec command]"

fun build_step :: "instruction \<Rightarrow> step list" where
  "build_step (FROM image_name) = [Base image_name]"
| "build_step (RUN commands) = concat (map run_command commands)"
| "build_step (COPY source destination) = [Copy source destination]"

definition build :: "instruction list \<Rightarrow> step list" where
  "build instructions = concat (map build_step instructions)"

text \<open>
  The tag of an image name (after the colon), and the name and the extra of a pip
  requirement such as \<^verbatim>\<open>google-vizier[jax]\<close>.
\<close>

definition image_tag :: "string \<Rightarrow> string" where
  "image_tag image_name = drop 1 (dropWhile (\<lambda>c. c \<noteq> CHR '':'') image_name)"

definition requirement_name :: "string \<Rightarrow> string" where
  "requirement_name requirement = takeWhile (\<lambda>c. c \<noteq> CHR ''['') requirement"

definition requirement_extra :: "string \<Rightarrow> string" where
  "requirement_extra requirement =
     takeWhile (\<lambda>c. c \<noteq> CHR '']'') (drop 1 (dropWhile (\<lambda>c. c \<noteq> CHR ''['') requirement))"

section \<open>Properties of make_parameters\<close>

lemma vz_misspelt: "vz_parameter_type ''ParamterType'' member = Inl (AttributeError ''ParamterType'')"
  by (simp add: vz_parameter_type_def)

lemma make_parameters_nonempty:
  "make_parameters \<lparr>parameters = parameter_config # others\<rparr> index
     = Inl (AttributeError ''ParamterType'')"
  by (simp add: make_parameters_def vz_misspelt)

lemma make_parameters_outcome:
  "make_parameters space index =
     (if parameters space = [] then Inr Map.empty else Inl (AttributeError ''ParamterType''))"
  by (cases "parameters space") (simp_all add: make_parameters_def vz_misspelt)

text \<open>
  Claim C1 at the search space of one CATEGORICAL parameter \<^verbatim>\<open>a\<close> with the feasible
  values \<^verbatim>\<open>x\<close> and \<^verbatim>\<open>y\<close>, index 0: the call returns no dict. The first evaluation of
  the \<^verbatim>\<open>if\<close> condition looks \<^verbatim>\<open>ParamterType\<close> up in the module, which has no
  attribute of that name, and the \<^verbatim>\<open>AttributeError\<close> leaves the function; so does
  every call on a search space with at least one parameter, at every index.
\<close>

theorem make_parameters_AttributeError:
  "make_parameters
     \<lparr>parameters = [\<lparr>name = ''a'', type = CATEGORICAL, feasible_values = [''x'', ''y'']\<rparr>]\<rparr> 0
     = Inl (AttributeError ''ParamterType'')
   \<and> make_parameters \<lparr>parameters = parameter_config # others\<rparr> index
     = Inl (AttributeError ''ParamterType'')"
  by (simp add: make_parameters_nonempty)

text \<open>
  Claim C2 at the search space of one DOUBLE parameter: the exception is the
  \<^verbatim>\<open>AttributeError\<close> of the misspelt name, raised by the condition that guards the
  \<^verbatim>\<open>raise ValueError\<close>; on no search space and at no index does \<open>make_parameters\<close>
  raise that \<^verbatim>\<open>ValueError\<close>.
\<close>

theorem make_parameters_no_ValueError:
  "make_parameters
     \<lparr>parameters = [\<lparr>name = ''rate'', type = DOUBLE, feasible_values = []\<rparr>]\<rparr> 0
     = Inl (AttributeError ''ParamterType'')
   \<and> make_parameters space index \<noteq> Inl (ValueError unsupported_message)"
  by (simp add: make_parameters_outcome)

section \<open>Properties of get_next_index and MyPolicy\<close>





lemma suggest_loop_nonempty:
  "suggest_loop supporter \<lparr>parameters = parameter_config # others\<rparr> (Suc n) k acc
     = Inl (AttributeError ''ParamterType'')"
  by (simp add: make_parameters_nonempty split: prod.splits)

text \<open>
  Claim C10 at a request for two suggestions over the search space of one CATEGORICAL
  parameter, with a supporter that holds no trial and does not change: \<open>suggest\<close>
  returns no decision. The first iteration calls \<open>make_parameters\<close>, whose
  \<^verbatim>\<open>AttributeError\<close> leaves the method; so does every request with a count of at least
  1 over a search space with at least one parameter, for every policy.
\<close>

theorem MyPolicy_suggest_AttributeError:
  "MyPolicy_suggest (MyPolicy_init (fixed_supporter [] []))
     \<lparr>count = 2, study_config = \<lparr>search_space = \<lparr>parameters =
        [\<lparr>name = ''a'', type = CATEGORICAL, feasible_values = [''x'', ''y'']\<rparr>]\<rparr>\<rparr>\<rparr>
     = (Inl (AttributeError ''ParamterType''), MyPolicy_init (fixed_supporter [] []))
   \<and> MyPolicy_suggest p
     \<lparr>count = 1 + int n, study_config = \<lparr>search_space = \<lparr>parameters =
        parameter_config # others\<rparr>\<rparr>\<rparr>
     = (Inl (AttributeError ''ParamterType''), p)"
proof -
  have general: "MyPolicy_suggest q
     \<lparr>count = 1 + int m, study_config = \<lparr>search_space = \<lparr>parameters = pc # pcs\<rparr>\<rparr>\<rparr>
     = (Inl (AttributeError ''ParamterType''), q)" for q m pc pcs
  proof -
    have "nat (1 + int m) = Suc m" by simp
    then show ?thesis
      by (simp add: MyPolicy_suggest_def suggest_loop_nonempty del: suggest_loop.simps)
  qed
  from general [of "MyPolicy_init (fixed_supporter [] [])" 1] general [of p n]
  show ?thesis by simp
qed

section \<open>Properties of MyDesigner.update\<close>

lemma updates_completed:
  "completed_trials (MyDesigner_updates d (map (\<lambda>(c, a). (CompletedTrials c, ActiveTrials a)) batches))
     = completed_trials d @ concat (map fst batches)"
  by (induction batches arbitrary: d) (auto)

lemma updates_active:
  "active_trials (MyDesigner_updates d (map (\<lambda>(c, a). (CompletedTrials c, ActiveTrials a)) batches))
     = (if batches = [] then active_trials d else snd (last batches))"
  by (induction batches arbitrary: d) (auto)

lemma updates_config:
  "designer_study_config (MyDesigner_updates d calls) = designer_study_config d"
proof (induction calls arbitrary: d)
  case Nil
  then show ?case by simp
next
  case (Cons call calls)
  obtain c a where "call = (CompletedTrials c, ActiveTrials a)"
    by (metis CompletedTrials.exhaust ActiveTrials.exhaust surj_pair)
  with Cons show ?case by simp
qed

text \<open>
  Claim C5. Every call of \<open>update\<close> appends the completed batch to the stored completed
  trials, discarding none, and replaces the stored active trials by the given ones;
  so after any sequence of updates of a new designer the completed list is the
  concatenation of all completed batches in call order and the active list is the
  last batch given (empty when there was no call).
\<close>

theorem MyDesigner_update_accumulates:
  "completed_trials (MyDesigner_update d (CompletedTrials completed) (ActiveTrials all_active))
     = completed_trials d @ completed
   \<and> active_trials (MyDesigner_update d (CompletedTrials completed) (ActiveTrials all_active))
     = all_active
   \<and> completed_trials
       (MyDesigner_updates (MyDesigner_init config)
          (map (\<lambda>(c, a). (CompletedTrials c, ActiveTrials a)) batches))
     = concat (map fst batches)
   \<and> active_trials
       (MyDesigner_updates (MyDesigner_init config)
          (map (\<lambda>(c, a). (CompletedTrials c, ActiveTrials a)) batches))
     = (if batches = [] then [] else snd (last batches))"
  by (simp add: updates_completed updates_active MyDesigner_init_def)

section \<open>Properties of MyDesigner.suggest\<close>

text \<open>
  Claim C9 at a new designer updated once with the completed trial 1 and no active
  trial, asked for one suggestion: a trial is recorded, and \<open>suggest\<close> returns nothing.
  \<open>update\<close> has made \<^verbatim>\<open>_active_trials\<close> a tuple, and adding it to the list
  \<^verbatim>\<open>_completed_trials\<close> raises a \<^verbatim>\<open>TypeError\<close>; so it is after every update, for
  every count. A designer that was never updated raises on the \<^verbatim>\<open>max\<close> of the empty
  list, \<open>suggest(None)\<close> returns the empty list, and \<open>get_next_index\<close> returns 0 for
  a supporter without trials.
\<close>

theorem MyDesigner_suggest_TypeError:
  "MyDesigner_suggest
     (MyDesigner_update
        (MyDesigner_init \<lparr>search_space = \<lparr>parameters =
           [\<lparr>name = ''a'', type = CATEGORICAL, feasible_values = [''x'', ''y'']\<rparr>]\<rparr>\<rparr>)
        (CompletedTrials [\<lparr>trial_id = 1\<rparr>]) (ActiveTrials []))
     (Some 1)
     = Inl TypeError
   \<and> MyDesigner_suggest (MyDesigner_update d completed all_active) (Some n) = Inl TypeError
   \<and> MyDesigner_suggest (MyDesigner_init config) (Some n) = Inl (ValueError empty_max_message)
   \<and> MyDesigner_suggest d None = Inr []
   \<and> fst (get_next_index (fixed_supporter [] []) k) = 0"
proof -
  have "MyDesigner_suggest (MyDesigner_update d' c a) (Some m) = Inl TypeError" for d' c a m
    by (cases c; cases a) (simp add: MyDesigner_suggest_def)
  then show ?thesis
    by (simp add: MyDesigner_suggest_def MyDesigner_init_def py_max_def get_next_index_def
        fixed_supporter_def)
qed

section \<open>Properties of str and int\<close>

lemma digit_char_table:
  "list_all (\<lambda>n. digit_val (digit_char n) = n \<and> is_digit (digit_char n)) [0..<10]"
  by code_simp

lemma digit_char_props:
  assumes "n < 10"
  shows "digit_val (digit_char n) = n" and "is_digit (digit_char n)"
proof -
  from assms have "n \<in> set [0..<10]" by simp
  with digit_char_table show "digit_val (digit_char n) = n" and "is_digit (digit_char n)"
    unfolding list_all_iff by blast+
qed

lemma is_digit_plain:
  assumes "is_digit c"
  shows "\<not> is_space c" and "c \<noteq> CHR ''_''" and "c \<noteq> CHR ''-''" and "c \<noteq> CHR ''+''"
  using assms by (auto simp: is_digit_def is_space_def)

lemma digits_nonempty: "digits n \<noteq> []"
  by (subst digits.simps) simp

lemma digits_is_digit: "c \<in> set (digits n) \<Longrightarrow> is_digit c"
proof (induction n rule: digits.induct)
  case (1 n)
  show ?case
  proof (cases "n < 10")
    case True
    with "1.prems" show ?thesis
      by (subst (asm) digits.simps) (simp add: digit_char_props)
  next
    case False
    with "1.prems" have "c \<in> set (digits (n div 10)) \<or> c = digit_char (n mod 10)"
      by (subst (asm) digits.simps) auto
    with False "1.IH" show ?thesis
      by (auto simp: digit_char_props)
  qed
qed

lemma digits_value:
  "foldl (\<lambda>acc c. 10 * acc + digit_val c) 0 (digits n) = n"
proof (induction n rule: digits.induct)
  case (1 n)
  show ?case
  proof (cases "n < 10")
    case True
    then show ?thesis
      by (subst digits.simps) (simp add: digit_char_props)
  next
    case False
    with "1.IH" show ?thesis
      by (subst digits.simps) (simp add: digit_char_props)
  qed
qed

lemma int_literal_digits:
  "s \<noteq> [] \<Longrightarrow> \<forall>c \<in> set s. is_digit c \<Longrightarrow> int_literal s"
  by (induction s rule: int_literal.induct) (auto simp: is_digit_plain)

lemma filter_digits:
  "\<forall>c \<in> set s. is_digit c \<Longrightarrow> filter (\<lambda>c. c \<noteq> CHR ''_'') s = s"
  by (induction s) (auto simp: is_digit_plain)


lemma digits_length_le: "n < 10 ^ Suc k \<Longrightarrow> length (digits n) \<le> Suc k"
proof (induction k arbitrary: n)
  case 0
  then show ?case by (subst digits.simps) simp
next
  case (Suc k)
  show ?case
  proof (cases "n < 10")
    case True
    then show ?thesis by (subst digits.simps) simp
  next
    case False
    from Suc.prems have "n div 10 < 10 ^ Suc k" by simp
    then have "length (digits (n div 10)) \<le> Suc k" by (rule Suc.IH)
    with False show ?thesis by (subst digits.simps) simp
  qed
qed

lemma digits_power: "length (digits (10 ^ k)) = Suc k"
proof (induction k)
  case 0
  show ?case by (subst digits.simps) simp
next
  case (Suc k)
  have "\<not> (10::nat) ^ Suc k < 10" by simp
  with Suc show ?case by (subst digits.simps) simp
qed

lemma parse_digits_digits:
  assumes "length (digits n) \<le> max_str_digits"
  shows "parse_digits (digits n) = Inr n"
proof -
  have all: "\<forall>c \<in> set (digits n). is_digit c"
    by (simp add: digits_is_digit)
  then have literal: "takeWhile (\<lambda>c. is_digit c \<or> c = CHR ''_'') (digits n) = digits n"
    and trailing: "dropWhile (\<lambda>c. is_digit c \<or> c = CHR ''_'') (digits n) = []"
    by simp_all
  from digits_nonempty all have "int_literal (digits n)"
    by (rule int_literal_digits)
  with all assms show ?thesis
    by (simp add: parse_digits_def literal trailing filter_digits digits_value)
qed

lemma strip_plain:
  assumes "\<forall>c \<in> set s. \<not> is_space c"
  shows "strip s = s"
proof -
  have drop: "dropWhile is_space t = t" if "\<forall>c \<in> set t. \<not> is_space c" for t
    using that by (cases t) simp_all
  from assms show ?thesis
    by (simp add: strip_def drop)
qed

lemma str_int_in_limit:
  assumes "\<bar>i\<bar> < 10 ^ max_str_digits"
  shows "length (digits (nat \<bar>i\<bar>)) \<le> max_str_digits"
    and "str_int i = Inr (if i < 0 then CHR ''-'' # digits (nat \<bar>i\<bar>) else digits (nat \<bar>i\<bar>))"
proof -
  obtain k where limit: "max_str_digits = Suc k"
    by (cases max_str_digits) (simp_all add: max_str_digits_def)
  have "nat \<bar>i\<bar> < 10 ^ max_str_digits"
    using assms by (simp add: nat_less_iff)
  then have "nat \<bar>i\<bar> < 10 ^ Suc k"
    by (simp only: limit)
  then have "length (digits (nat \<bar>i\<bar>)) \<le> Suc k"
    by (rule digits_length_le)
  then show fits: "length (digits (nat \<bar>i\<bar>)) \<le> max_str_digits"
    by (simp only: limit)
  then show "str_int i = Inr (if i < 0 then CHR ''-'' # digits (nat \<bar>i\<bar>) else digits (nat \<bar>i\<bar>))"
    by (simp add: str_int_def)
qed

lemma py_int_digits:
  assumes "length (digits n) \<le> max_str_digits"
  shows "py_int (digits n) = Inr (int n)" and "py_int (CHR ''-'' # digits n) = Inr (- int n)"
proof -
  let ?ds = "digits n"
  have plain: "\<not> is_space c" if "c \<in> set ?ds" for c
    using digits_is_digit [OF that] by (rule is_digit_plain(1))
  obtain c cs where ds: "?ds = c # cs"
    using digits_nonempty [of n] by (cases ?ds) auto
  then have "is_digit c"
    using digits_is_digit [of c n] by simp
  then have sign: "c \<noteq> CHR ''-''" "c \<noteq> CHR ''+''"
    by (simp_all add: is_digit_plain)
  from plain have "\<forall>c \<in> set ?ds. \<not> is_space c"
    by simp
  then have "strip ?ds = ?ds"
    by (rule strip_plain)
  with ds sign parse_digits_digits [OF assms] show "py_int ?ds = Inr (int n)"
    by (simp add: py_int_def)
  have "\<not> is_space (CHR ''-'')"
    by (simp add: is_space_def)
  with plain have "\<forall>c \<in> set (CHR ''-'' # ?ds). \<not> is_space c"
    by simp
  then have "strip (CHR ''-'' # ?ds) = CHR ''-'' # ?ds"
    by (rule strip_plain)
  with parse_digits_digits [OF assms] show "py_int (CHR ''-'' # ?ds) = Inr (- int n)"
    by (simp add: py_int_def)
qed

lemma py_int_str_int:
  assumes "\<bar>i\<bar> < 10 ^ max_str_digits"
  shows "\<exists>s. str_int i = Inr s \<and> py_int s = Inr i"
proof -
  note fits = str_int_in_limit [OF assms]
  show ?thesis
  proof (cases "i < 0")
    case True
    with fits py_int_digits(2) [OF fits(1)] show ?thesis by simp
  next
    case False
    with fits py_int_digits(1) [OF fits(1)] show ?thesis by simp
  qed
qed

lemma str_int_beyond_limit: "str_int (10 ^ max_str_digits) = Inl (ValueError limit_message)"
proof -
  have "nat \<bar>10 ^ max_str_digits :: int\<bar> = 10 ^ max_str_digits"
    by (simp add: nat_power_eq)
  then have "length (digits (nat \<bar>10 ^ max_str_digits :: int\<bar>)) = Suc max_str_digits"
    by (simp only: digits_power)
  then show ?thesis
    unfolding str_int_def Let_def by (simp only: lessI if_True)
qed

text \<open>
  Claim C7, as amended. For a designer whose counter is an integer \<open>c\<close> of at most 4300
  decimal digits, \<open>dump\<close> returns the metadata that holds the decimal string of \<open>c\<close> under
  \<^verbatim>\<open>'counter'\<close>, and \<open>load\<close> of that metadata on any designer succeeds and sets its
  counter to the integer \<open>c\<close>, leaving the rest of it as it was.
\<close>

theorem CounterPartialDesigner_roundtrip:
  assumes "counter_p d = PyInt c" and "\<bar>c\<bar> < 10 ^ max_str_digits"
  shows "\<exists>s. str_int c = Inr s
           \<and> CounterPartialDesigner_dump d = Inr [''counter'' \<mapsto> s]
           \<and> CounterPartialDesigner_load d' [''counter'' \<mapsto> s] = Inr (d'\<lparr>counter_p := PyInt c\<rparr>)"
proof -
  from py_int_str_int [OF assms(2)] obtain s where "str_int c = Inr s" and "py_int s = Inr c"
    by blast
  with assms(1) show ?thesis
    by (simp add: CounterPartialDesigner_load_def CounterPartialDesigner_dump_def)
qed

text \<open>Witness of C7: the counter \<open>-42\<close>, loaded into a designer that held a string.\<close>

theorem CounterPartialDesigner_roundtrip_witness:
  "CounterPartialDesigner_dump \<lparr>counter_p = PyInt (- 42)\<rparr> = Inr [''counter'' \<mapsto> ''-42'']
   \<and> CounterPartialDesigner_load \<lparr>counter_p = PyStr ''unset''\<rparr> [''counter'' \<mapsto> ''-42'']
       = Inr \<lparr>counter_p = PyInt (- 42)\<rparr>"
proof -
  have "(10::int) ^ 2 \<le> 10 ^ max_str_digits"
    by (rule power_increasing) (simp_all add: max_str_digits_def)
  then have small: "\<bar>- 42 :: int\<bar> < 10 ^ max_str_digits"
    by simp
  have digits: "digits 42 = ''42''"
    by (simp add: digits.simps digit_char_def)
  have "str_int (- 42) = Inr ''-42''"
    using str_int_in_limit(2) [OF small] by (simp add: digits)
  with CounterPartialDesigner_roundtrip
    [of "\<lparr>counter_p = PyInt (- 42)\<rparr>" "- 42" "\<lparr>counter_p = PyStr ''unset''\<rparr>", OF _ small]
  show ?thesis by simp
qed

text \<open>
  The claim as stated fails at the counter \<open>10 ^ 4300\<close>, an integer of 4301 digits:
  \<^verbatim>\<open>str\<close> refuses to convert it, and \<open>dump\<close> raises.
\<close>

theorem CounterPartialDesigner_roundtrip_counterexample:
  "CounterPartialDesigner_dump \<lparr>counter_p = PyInt (10 ^ max_str_digits)\<rparr>
     = Inl (ValueError limit_message)"
  by (simp add: CounterPartialDesigner_dump_def str_int_beyond_limit)

section \<open>Properties of CounterSerialDesigner\<close>

text \<open>
  Claim C4 at the designer \<^verbatim>\<open>CounterSerialDesigner(5)\<close>: \<open>dump\<close> stores the string
  \<^verbatim>\<open>'5'\<close>, and \<open>recover\<close> hands that string to the constructor as it is, so the
  recovered counter is the string \<^verbatim>\<open>'5'\<close> and not the integer 5. \<open>recover\<close> lacks the
  \<^verbatim>\<open>int\<close> that \<^verbatim>\<open>CounterPartialDesigner.load\<close> applies.
\<close>

theorem CounterSerialDesigner_roundtrip_fails:
  "CounterSerialDesigner_dump (CounterSerialDesigner_init (PyInt 5)) = Inr [''counter'' \<mapsto> ''5'']
   \<and> CounterSerialDesigner_recover [''counter'' \<mapsto> ''5'']
       = Inr (CounterSerialDesigner_init (PyStr ''5''))
   \<and> counter_s (CounterSerialDesigner_init (PyStr ''5''))
       \<noteq> counter_s (CounterSerialDesigner_init (PyInt 5))"
  by (simp add: CounterSerialDesigner_dump_def CounterSerialDesigner_recover_def
      CounterSerialDesigner_init_def str_int_def digits.simps digit_char_def max_str_digits_def)

section \<open>Properties of CounterDesigner\<close>

lemma CounterDesigner_suggest_counter:
  "counter (snd (CounterDesigner_suggest body d cnt))
     = counter d + int (suggested (fst (CounterDesigner_suggest body d cnt)))"
  by (simp add: CounterDesigner_suggest_def split: prod.splits sum.splits)

lemma CounterDesigner_session_counter:
  "counter (snd (CounterDesigner_session body d cnts))
     = counter d + int (sum_list (map suggested (fst (CounterDesigner_session body d cnts))))"
proof (induction cnts arbitrary: d)
  case Nil
  show ?case by simp
next
  case (Cons cnt cnts)
  obtain outcome d' where step: "CounterDesigner_suggest body d cnt = (outcome, d')"
    by (cases "CounterDesigner_suggest body d cnt")
  obtain outcomes final where run: "CounterDesigner_session body d' cnts = (outcomes, final)"
    by (cases "CounterDesigner_session body d' cnts")
  from CounterDesigner_suggest_counter [of body d cnt] step
  have "counter d' = counter d + int (suggested outcome)" by simp
  moreover from Cons.IH [of d'] run
  have "counter final = counter d' + int (sum_list (map suggested outcomes))" by simp
  ultimately show ?case using step run by simp
qed

text \<open>
  Claim C6. The counter is 0 after \<^verbatim>\<open>__init__\<close>; every call of \<open>suggest\<close> adds to it
  the length of the sequence the call returns (nothing when the call raises); so after
  any sequence of calls on a new designer the counter is the total number of
  suggestions returned.
\<close>

theorem CounterDesigner_counts_suggestions:
  "counter (CounterDesigner_init rest0) = 0
   \<and> counter (snd (CounterDesigner_suggest body d cnt))
       = counter d + int (suggested (fst (CounterDesigner_suggest body d cnt)))
   \<and> counter (snd (CounterDesigner_session body (CounterDesigner_init rest0) cnts))
       = int (sum_list (map suggested
               (fst (CounterDesigner_session body (CounterDesigner_init rest0) cnts))))"
  using CounterDesigner_session_counter [of body "CounterDesigner_init rest0" cnts]
  by (simp add: CounterDesigner_suggest_counter CounterDesigner_init_def)

section \<open>Properties of the Dockerfile\<close>

lemma Dockerfile_steps:
  "build Dockerfile =
     [Base ''python:3.11.4-slim'',
      Exec [''apt-get'', ''update''],
      AptInstall [''build-essential'', ''wget''],
      Exec [''apt-get'', ''purge'', ''-y'', ''--auto-remove''],
      Exec [''rm'', ''-rf'', ''/var/lib/apt/lists/*''],
      Copy ''./'' ''.'',
      PipRequirements ''requirements.txt'',
      PipRequirements ''requirements-jax.txt'',
      PipPackage ''google-vizier[jax]'',
      Exec [''./build_protos.sh'']]"
  by (simp add: build_def Dockerfile_def is_option_def)

text \<open>
  Claim C8. The build starts from the image \<^verbatim>\<open>python:3.11.4-slim\<close>, whose tag is a
  3.11 release with the suffix \<^verbatim>\<open>-slim\<close>; \<^verbatim>\<open>apt-get install\<close> installs
  \<^verbatim>\<open>build-essential\<close> and \<^verbatim>\<open>wget\<close>; the build context \<^verbatim>\<open>./\<close> is copied into the
  image; \<^verbatim>\<open>pip3 install\<close> is given the requirement files \<^verbatim>\<open>requirements.txt\<close> and
  \<^verbatim>\<open>requirements-jax.txt\<close> and the package \<^verbatim>\<open>google-vizier\<close> with the extra
  \<^verbatim>\<open>jax\<close>; and the last step of the build, the only command of the last instruction,
  runs \<^verbatim>\<open>./build_protos.sh\<close>.
\<close>

theorem Dockerfile_build:
  "hd (build Dockerfile) = Base ''python:3.11.4-slim''
   \<and> take 5 (image_tag ''python:3.11.4-slim'') = ''3.11.''
   \<and> drop 6 (image_tag ''python:3.11.4-slim'') = ''-slim''
   \<and> [packages. AptInstall packages \<leftarrow> build Dockerfile] = [[''build-essential'', ''wget'']]
   \<and> [(source, destination). Copy source destination \<leftarrow> build Dockerfile] = [(''./'', ''.'')]
   \<and> [file. PipRequirements file \<leftarrow> build Dockerfile]
       = [''requirements.txt'', ''requirements-jax.txt'']
   \<and> [(requirement_name package, requirement_extra package). PipPackage package \<leftarrow> build Dockerfile]
       = [(''google-vizier'', ''jax'')]
   \<and> last (build Dockerfile) = Exec [''./build_protos.sh'']
   \<and> last Dockerfile = RUN [[''./build_protos.sh'']]"
  by (simp add: Dockerfile_steps image_tag_def requirement_name_def requirement_extra_def)
    (simp add: Dockerfile_def)

end
